theory Spec2Isabelle
  imports Main "HOL-Library.Sublist"
begin

section \<open>Package weathergov: cloud coverage, classification, period lookup\<close>

subsection \<open>The cloud coverage enumeration\<close>

text \<open>
  \<^verbatim>\<open>type OpaqueCloudCoverage int\<close> with the constants
  \<^verbatim>\<open>UnknownOpaqueCloudCoverage = iota, ClearSunny, MostlyClearSunny, PartlyCloudySunny,
  MostlyCloudy, Cloudy, Rain, Snow\<close>. The source compares values of this type with the
  integer comparisons \<^verbatim>\<open><=\<close>, \<^verbatim>\<open>>=\<close> and \<^verbatim>\<open>==\<close>; \<open>iota\<close> gives each constant its integer.
\<close>

datatype OpaqueCloudCoverage =
    UnknownOpaqueCloudCoverage
  | ClearSunny
  | MostlyClearSunny
  | PartlyCloudySunny
  | MostlyCloudy
  | Cloudy
  | Rain
  | Snow

fun iota :: "OpaqueCloudCoverage \<Rightarrow> int" where
  "iota UnknownOpaqueCloudCoverage = 0"
| "iota ClearSunny = 1"
| "iota MostlyClearSunny = 2"
| "iota PartlyCloudySunny = 3"
| "iota MostlyCloudy = 4"
| "iota Cloudy = 5"
| "iota Rain = 6"
| "iota Snow = 7"

subsection \<open>Time values\<close>

text \<open>
  A \<^verbatim>\<open>time.Time\<close> is an instant (here: nanoseconds since the zero time, January 1 of
  year 1, 00:00 UTC) together with a location used for printing. \<^verbatim>\<open>Before\<close>, \<^verbatim>\<open>After\<close>
  and \<^verbatim>\<open>Equal\<close> compare instants only; \<^verbatim>\<open>In\<close> changes the location only. The zero value
  \<^verbatim>\<open>time.Time{}\<close> is instant 0 in UTC.
\<close>

datatype Location = UTC | Zone string

record Time =
  instant :: int
  location :: Location

definition zeroTime :: Time where
  "zeroTime = \<lparr>instant = 0, location = UTC\<rparr>"

definition Before :: "Time \<Rightarrow> Time \<Rightarrow> bool" where
  "Before t u = (instant t < instant u)"

definition After :: "Time \<Rightarrow> Time \<Rightarrow> bool" where
  "After t u = (instant t > instant u)"

definition Equal :: "Time \<Rightarrow> Time \<Rightarrow> bool" where
  "Equal t u = (instant t = instant u)"

definition In :: "Time \<Rightarrow> Location \<Rightarrow> Time" where
  "In t l = t\<lparr>location := l\<rparr>"

definition tick :: "Time \<Rightarrow> Time" where
  "tick t = t\<lparr>instant := instant t + 1\<rparr>"

subsection \<open>Forecast periods\<close>

record Forecast =
  StartTime :: Time
  EndTime :: Time
  Name :: string
  ShortForecast :: string
  OpaqueCloudCoverage :: OpaqueCloudCoverage

text \<open>The zero value \<^verbatim>\<open>Forecast{}\<close>.\<close>

definition zeroForecast :: Forecast where
  "zeroForecast =
     \<lparr>StartTime = zeroTime, EndTime = zeroTime, Name = [], ShortForecast = [],
      OpaqueCloudCoverage = UnknownOpaqueCloudCoverage\<rparr>"

subsection \<open>The string functions the classifier calls\<close>

text \<open>
  A Go string is a sequence of bytes, as a HOL \<open>string\<close> is. \<^verbatim>\<open>strings.Contains(s, substr)\<close>
  holds when \<open>substr\<close> starts at some position of \<open>s\<close>.
\<close>

fun Contains :: "string \<Rightarrow> string \<Rightarrow> bool" where
  "Contains [] substr = (substr = [])"
| "Contains (c # cs) substr = (prefix substr (c # cs) \<or> Contains cs substr)"

text \<open>
  \<^verbatim>\<open>strings.ToLower\<close> maps the ASCII letters A to Z to a to z. Of the code points beyond
  ASCII, exactly two have an ASCII letter as their lower case: U+0130 (bytes C4 B0), whose
  lower case is \<open>i\<close>, and U+212A (bytes E2 84 AA), whose lower case is \<open>k\<close>. Every other
  byte from 0x80 on is kept here as it is: Go re-encodes such bytes, always to bytes from
  0x80 on, so an ASCII pattern is found in Go's result exactly where it is found in this one.
\<close>

definition lowerASCII :: "char \<Rightarrow> char" where
  "lowerASCII c =
     (if (65::nat) \<le> of_char c \<and> of_char c \<le> (90::nat)
      then char_of (of_char c + (32::nat)) else c)"

fun ToLower :: "string \<Rightarrow> string" where
  "ToLower [] = []"
| "ToLower [c] = [lowerASCII c]"
| "ToLower [c, d] =
     (if c = CHR 0xC4 \<and> d = CHR 0xB0 then [CHR ''i'']
      else lowerASCII c # ToLower [d])"
| "ToLower (c # d # e # cs) =
     (if c = CHR 0xC4 \<and> d = CHR 0xB0 then CHR ''i'' # ToLower (e # cs)
      else if c = CHR 0xE2 \<and> d = CHR 0x84 \<and> e = CHR 0xAA
      then CHR ''k'' # ToLower cs
      else lowerASCII c # ToLower (d # e # cs))"

subsection \<open>Classification of a short forecast\<close>

text \<open>
  \<^verbatim>\<open>estimateOpaqueCloudCoverage\<close>: the fallback on the lower-cased text, rain before snow.
\<close>

definition estimateOpaqueCloudCoverage :: "string \<Rightarrow> OpaqueCloudCoverage" where
  "estimateOpaqueCloudCoverage shortForecast =
     (let tl = ToLower shortForecast in
      if Contains tl ''rain'' then Rain
      else if Contains tl ''snow'' then Snow
      else UnknownOpaqueCloudCoverage)"

text \<open>
  The \<^verbatim>\<open>switch p.ShortForecast\<close> of \<^verbatim>\<open>GetForecast\<close>: the value assigned to
  \<^verbatim>\<open>fc.Periods[i].OpaqueCloudCoverage\<close>. A Go switch on a string compares with \<^verbatim>\<open>==\<close>,
  case by case from the top.
\<close>

definition switchShortForecast :: "string \<Rightarrow> OpaqueCloudCoverage" where
  "switchShortForecast s =
     (if s = ''Clear'' \<or> s = ''Sunny'' then ClearSunny
      else if s = ''Mostly Clear'' \<or> s = ''Mostly Sunny'' then MostlyClearSunny
      else if s = ''Partly Cloudy'' \<or> s = ''Partly Sunny'' then PartlyCloudySunny
      else if s = ''Mostly Cloudy'' then MostlyCloudy
      else if s = ''Cloudy'' then Cloudy
      else estimateOpaqueCloudCoverage s)"

text \<open>
  The loop \<^verbatim>\<open>for i, p := range fc.Periods\<close> of \<^verbatim>\<open>GetForecast\<close>, on the copied periods: each
  period keeps its fields and gets its coverage from the switch.
\<close>

fun classifyPeriods :: "Forecast list \<Rightarrow> Forecast list" where
  "classifyPeriods [] = []"
| "classifyPeriods (p # ps) =
     p\<lparr>OpaqueCloudCoverage := switchShortForecast (ShortForecast p)\<rparr> # classifyPeriods ps"

text \<open>
  The classifier as the specification words it: an exact-match table, then the substring
  heuristic. Used only to compare with \<open>switchShortForecast\<close>.
\<close>

definition spec_table :: "(string \<times> OpaqueCloudCoverage) list" where
  "spec_table =
     [(''Clear'', ClearSunny), (''Sunny'', ClearSunny),
      (''Mostly Clear'', MostlyClearSunny), (''Mostly Sunny'', MostlyClearSunny),
      (''Partly Cloudy'', PartlyCloudySunny), (''Partly Sunny'', PartlyCloudySunny),
      (''Mostly Cloudy'', MostlyCloudy), (''Cloudy'', Cloudy)]"

definition spec_classify :: "string \<Rightarrow> OpaqueCloudCoverage" where
  "spec_classify s =
     (case map_of spec_table s of
        Some c \<Rightarrow> c
      | None \<Rightarrow>
          if (\<exists>a b. ToLower s = a @ ''rain'' @ b) then Rain
          else if (\<exists>a b. ToLower s = a @ ''snow'' @ b) then Snow
          else UnknownOpaqueCloudCoverage)"

subsection \<open>Period lookup\<close>

text \<open>
  \<^verbatim>\<open>type Forecasts struct\<close>. The fields \<^verbatim>\<open>Lat\<close> and \<^verbatim>\<open>Long\<close> (float64) are read by no
  function embedded here and are left out.
\<close>

record Forecasts =
  GridX :: int
  GridY :: int
  Periods :: "Forecast list"

text \<open>
  \<^verbatim>\<open>Forecasts.ForTime\<close>: the loop \<^verbatim>\<open>for _, f := range fc.Periods\<close> returns the first period,
  in stored order, with \<^verbatim>\<open>f.StartTime.Before(when) && f.EndTime.After(when)\<close>; after the
  loop the function returns the zero \<^verbatim>\<open>Forecast\<close> and \<^verbatim>\<open>false\<close>.
\<close>

fun ForTime_range :: "Forecast list \<Rightarrow> Time \<Rightarrow> Forecast \<times> bool" where
  "ForTime_range [] when = (zeroForecast, False)"
| "ForTime_range (f # fs) when =
     (if Before (StartTime f) when \<and> After (EndTime f) when then (f, True)
      else ForTime_range fs when)"

definition ForTime :: "Forecasts \<Rightarrow> Time \<Rightarrow> Forecast \<times> bool" where
  "ForTime fc when = ForTime_range (Periods fc) when"

text \<open>
  The specification's words for the lookup: \<open>when\<close> lies in the strict interior of the
  period, and the first such period in document order is the answer.
\<close>

definition inside :: "Forecast \<Rightarrow> Time \<Rightarrow> bool" where
  "inside f when = (instant (StartTime f) < instant when \<and> instant when < instant (EndTime f))"

definition spec_PeriodFor :: "Forecast list \<Rightarrow> Time \<Rightarrow> Forecast \<times> bool" where
  "spec_PeriodFor ps when =
     (case find (\<lambda>f. inside f when) ps of
        Some f \<Rightarrow> (f, True)
      | None \<Rightarrow> (zeroForecast, False))"

subsection \<open>The ordering of the specification\<close>

text \<open>
  The specification lists the categories in ascending order; \<open>spec_le\<close> compares two
  categories by their places in that list.
\<close>

definition spec_order :: "OpaqueCloudCoverage list" where
  "spec_order =
     [UnknownOpaqueCloudCoverage, ClearSunny, MostlyClearSunny, PartlyCloudySunny,
      MostlyCloudy, Cloudy, Rain, Snow]"

fun place :: "'a list \<Rightarrow> 'a \<Rightarrow> nat" where
  "place [] a = 0"
| "place (x # xs) a = (if x = a then 0 else Suc (place xs a))"

definition spec_le :: "OpaqueCloudCoverage \<Rightarrow> OpaqueCloudCoverage \<Rightarrow> bool" where
  "spec_le a b = (place spec_order a \<le> place spec_order b)"

text \<open>The categories of the clear-to-cloudy scale.\<close>

definition cloudScale :: "OpaqueCloudCoverage list" where
  "cloudScale = [ClearSunny, MostlyClearSunny, PartlyCloudySunny, MostlyCloudy, Cloudy]"

section \<open>Package weatherdev: the conditions of the forecast device\<close>

subsection \<open>Errors and arguments\<close>

text \<open>
  The errors \<^verbatim>\<open>opacity\<close> returns, one constructor for each \<^verbatim>\<open>fmt.Errorf\<close> and one for an
  error handed on from \<^verbatim>\<open>Service.Forecasts\<close>:
  \<^item> \<open>ExpectedArgument\<close>: "expected an argument for cloud cover: one of ...";
  \<^item> \<open>UnknownCloudCover arg\<close>: "unknown cloud cover: arg not one of ..." (the
    specification's InvalidArgument);
  \<^item> \<open>ForecastsError e\<close>: the error of \<^verbatim>\<open>f.service.Forecasts\<close>;
  \<^item> \<open>NoForecastAvailable due\<close>: "no forecast available for time: due" (the
    specification's NoForecastForTime);
  \<^item> \<open>UnknownCloudCoverInForecast text\<close>: "unknown cloud cover in forecast: text" (the
    specification's UnknownCategoryInForecast).
\<close>

datatype error =
    ExpectedArgument
  | UnknownCloudCover string
  | ForecastsError string
  | NoForecastAvailable Time
  | UnknownCloudCoverInForecast string

text \<open>
  \<^verbatim>\<open>devices.OperationArgs\<close>, the fields the conditions read. The \<^verbatim>\<open>Writer\<close> only receives
  a diagnostic line that no result depends on; it is left out.
\<close>

record OperationArgs =
  Due :: Time
  Args :: "string list"

subsection \<open>What the device calls outside this repository\<close>

text \<open>
  The device works through package \<^verbatim>\<open>nws\<close> and its service, whose code is not part of
  this repository. They are parameters of the embedding:
  \<^item> \<open>CloudOpacityFromShortForecast\<close>: \<^verbatim>\<open>nws.CloudOpacityFromShortForecast\<close>;
  \<^item> \<open>serviceForecasts\<close>: \<^verbatim>\<open>f.service.Forecasts(ctx, opts)\<close>, the only call that may reach
    the network; it takes the state of the world \<open>'w\<close> (upstream server, forecast cache)
    and returns the forecast or an error, and the new state;
  \<^item> \<open>PeriodFor\<close>: \<^verbatim>\<open>fc.PeriodFor\<close>, on the forecast type \<open>'fc\<close> of that package;
  \<^item> \<open>Now\<close>: \<^verbatim>\<open>time.Now()\<close>, read from the state of the world;
  \<^item> \<open>TimeLocation\<close>: \<^verbatim>\<open>f.service.System().Location.TimeLocation\<close>.
  The coverage type of \<^verbatim>\<open>nws\<close> is taken to be the enumeration above.
\<close>

record ('fc, 'w) Service =
  CloudOpacityFromShortForecast :: "string \<Rightarrow> OpaqueCloudCoverage"
  serviceForecasts :: "'w \<Rightarrow> (string + 'fc) \<times> 'w"
  PeriodFor :: "'fc \<Rightarrow> Time \<Rightarrow> Forecast \<times> bool"
  Now :: "'w \<Rightarrow> Time"
  TimeLocation :: Location

subsection \<open>The shared evaluation \<^verbatim>\<open>opacity\<close>\<close>

text \<open>
  The statement \<^verbatim>\<open>if opts.Due.Equal(time.Time{}) { opts.Due = time.Now().In(...) }\<close>:
  the value of \<^verbatim>\<open>opts.Due\<close> after it.
\<close>

definition substituteDue :: "('fc, 'w) Service \<Rightarrow> OperationArgs \<Rightarrow> 'w \<Rightarrow> Time" where
  "substituteDue sv opts w =
     (if Equal (Due opts) zeroTime then In (Now sv w) (TimeLocation sv) else Due opts)"

text \<open>
  \<^verbatim>\<open>Forecast.opacity\<close> returns \<^verbatim>\<open>(forecast, wanted, err)\<close>; its callers read the two
  coverages only when \<open>err\<close> is nil, so the result is the error or the pair. The steps are
  in the order of the source: argument count, argument classification, fetch, time
  substitution, period lookup, classification of the period's text. The context \<^verbatim>\<open>ctx\<close> is
  only handed on to the service and is part of the world here.
\<close>

definition opacity ::
  "('fc, 'w) Service \<Rightarrow> OperationArgs \<Rightarrow> 'w \<Rightarrow>
     (error + OpaqueCloudCoverage \<times> OpaqueCloudCoverage) \<times> 'w" where
  "opacity sv opts w =
     (if length (Args opts) \<noteq> 1 then (Inl ExpectedArgument, w)
      else
        let wanted = CloudOpacityFromShortForecast sv (Args opts ! 0) in
        if wanted = UnknownOpaqueCloudCoverage
        then (Inl (UnknownCloudCover (Args opts ! 0)), w)
        else
          (case serviceForecasts sv w of
             (Inl e, w') \<Rightarrow> (Inl (ForecastsError e), w')
           | (Inr fc, w') \<Rightarrow>
               let due = substituteDue sv opts w' in
               (case PeriodFor sv fc due of
                  (p, ok) \<Rightarrow>
                    if \<not> ok then (Inl (NoForecastAvailable due), w')
                    else
                      let forecast = CloudOpacityFromShortForecast sv (ShortForecast p) in
                      if forecast = UnknownOpaqueCloudCoverage
                      then (Inl (UnknownCloudCoverInForecast (ShortForecast p)), w')
                      else (Inr (forecast, wanted), w'))))"

subsection \<open>The conditions\<close>

text \<open>
  \<^verbatim>\<open>Opacity\<close>, \<^verbatim>\<open>MaxOpacity\<close> and \<^verbatim>\<open>MinOpacity\<close> return \<^verbatim>\<open>(false, err)\<close> on an error of
  \<^verbatim>\<open>opacity\<close> and otherwise compare the two integers with \<^verbatim>\<open>==\<close>, \<^verbatim>\<open><=\<close>, \<^verbatim>\<open>>=\<close>.
  \<^verbatim>\<open>MostlySunny\<close>, \<^verbatim>\<open>PartlyCloudy\<close> and \<^verbatim>\<open>MostlyCloudy\<close> overwrite \<^verbatim>\<open>opts.Args\<close> and call
  one of the three; the method \<^verbatim>\<open>MostlyCloudy\<close> is \<open>MostlyCloudyCond\<close> here, the enumeration
  having a constant of that name.
\<close>

type_synonym ('w) Condition = "OperationArgs \<Rightarrow> 'w \<Rightarrow> (error + bool) \<times> 'w"

definition Opacity :: "('fc, 'w) Service \<Rightarrow> 'w Condition" where
  "Opacity sv opts w =
     (case opacity sv opts w of
        (Inl err, w') \<Rightarrow> (Inl err, w')
      | (Inr (fc, arg), w') \<Rightarrow> (Inr (iota fc = iota arg), w'))"

definition MaxOpacity :: "('fc, 'w) Service \<Rightarrow> 'w Condition" where
  "MaxOpacity sv opts w =
     (case opacity sv opts w of
        (Inl err, w') \<Rightarrow> (Inl err, w')
      | (Inr (fc, arg), w') \<Rightarrow> (Inr (iota fc \<le> iota arg), w'))"

definition MinOpacity :: "('fc, 'w) Service \<Rightarrow> 'w Condition" where
  "MinOpacity sv opts w =
     (case opacity sv opts w of
        (Inl err, w') \<Rightarrow> (Inl err, w')
      | (Inr (fc, arg), w') \<Rightarrow> (Inr (iota fc \<ge> iota arg), w'))"

definition MostlySunny :: "('fc, 'w) Service \<Rightarrow> 'w Condition" where
  "MostlySunny sv opts w = MaxOpacity sv (opts\<lparr>Args := [''Mostly Sunny'']\<rparr>) w"

definition PartlyCloudy :: "('fc, 'w) Service \<Rightarrow> 'w Condition" where
  "PartlyCloudy sv opts w = Opacity sv (opts\<lparr>Args := [''Partly Sunny'']\<rparr>) w"

definition MostlyCloudyCond :: "('fc, 'w) Service \<Rightarrow> 'w Condition" where
  "MostlyCloudyCond sv opts w = MinOpacity sv (opts\<lparr>Args := [''Mostly Cloudy'']\<rparr>) w"

text \<open>\<^verbatim>\<open>Forecast.Conditions\<close>: the map from condition names to the methods.\<close>

definition Conditions :: "('fc, 'w) Service \<Rightarrow> string \<rightharpoonup> 'w Condition" where
  "Conditions sv =
     [''cloud-cover'' \<mapsto> Opacity sv,
      ''max-cloud-cover'' \<mapsto> MaxOpacity sv,
      ''min-cloud-cover'' \<mapsto> MinOpacity sv,
      ''mostly-sunny'' \<mapsto> MostlySunny sv,
      ''partly-cloudy'' \<mapsto> PartlyCloudy sv,
      ''partly-sunny'' \<mapsto> PartlyCloudy sv,
      ''mostly-cloudy'' \<mapsto> MostlyCloudyCond sv]"

subsection \<open>Stand-ins for package nws\<close>

text \<open>
  Package \<^verbatim>\<open>nws\<close> is a library outside this repository, so its classifier and its period
  lookup cannot be embedded from source. For concrete evaluation they are replaced by
  stand-ins, written to what the device tests of this repository rely on: every condition
  accepts the arguments "sunny", "clear", "mostly clear", "mostly sunny", "partly cloudy",
  "partly sunny", "mostly cloudy" and "cloudy" in lower case, so the comparison with the
  eight phrases ignores case; and every condition is evaluated at the start time of a
  period, so a lookup at the start of a period finds it. A text that is none of the eight
  phrases is unknown to the stand-in. The fetch always succeeds with \<open>fc\<close>, and the world
  counts the fetches (as the mock server's \<^verbatim>\<open>ForecastCalls\<close> does in the tests). Every
  theorem about the device is proved for any service; the stand-ins only supply concrete
  inputs.
\<close>

definition standInCloudOpacity :: "string \<Rightarrow> OpaqueCloudCoverage" where
  "standInCloudOpacity s =
     (let l = ToLower s in
      if l = ''clear'' \<or> l = ''sunny'' then ClearSunny
      else if l = ''mostly clear'' \<or> l = ''mostly sunny'' then MostlyClearSunny
      else if l = ''partly cloudy'' \<or> l = ''partly sunny'' then PartlyCloudySunny
      else if l = ''mostly cloudy'' then MostlyCloudy
      else if l = ''cloudy'' then Cloudy
      else UnknownOpaqueCloudCoverage)"

fun standInPeriodFor_range :: "Forecast list \<Rightarrow> Time \<Rightarrow> Forecast \<times> bool" where
  "standInPeriodFor_range [] when = (zeroForecast, False)"
| "standInPeriodFor_range (p # ps) when =
     (if (Equal when (StartTime p) \<or> After when (StartTime p)) \<and> Before when (EndTime p)
      then (p, True)
      else standInPeriodFor_range ps when)"

definition standInPeriodFor :: "Forecasts \<Rightarrow> Time \<Rightarrow> Forecast \<times> bool" where
  "standInPeriodFor fc when = standInPeriodFor_range (Periods fc) when"

definition standInService :: "Forecasts \<Rightarrow> Time \<Rightarrow> Location \<Rightarrow> (Forecasts, nat) Service" where
  "standInService fc now loc =
     \<lparr>CloudOpacityFromShortForecast = standInCloudOpacity,
      serviceForecasts = (\<lambda>n. (Inr fc, Suc n)),
      PeriodFor = standInPeriodFor,
      Now = (\<lambda>n. now),
      TimeLocation = loc\<rparr>"

subsection \<open>Example data\<close>

definition at :: "int \<Rightarrow> Time" where
  "at n = \<lparr>instant = n, location = UTC\<rparr>"

definition period :: "int \<Rightarrow> int \<Rightarrow> string \<Rightarrow> Forecast" where
  "period s e txt =
     \<lparr>StartTime = at s, EndTime = at e, Name = [], ShortForecast = txt,
      OpaqueCloudCoverage = switchShortForecast txt\<rparr>"

text \<open>
  Five periods; the third and fourth overlap (from 30 to 40), which the lookup tolerates.
\<close>

definition examplePeriods :: "Forecast list" where
  "examplePeriods =
     [period 0 10 ''Sunny'', period 10 20 ''Blustery'', period 20 40 ''Rain and Snow'',
      period 30 50 ''Mostly Cloudy'', period 50 60 ''Chance Snow Showers'']"

definition exampleForecasts :: Forecasts where
  "exampleForecasts = \<lparr>GridX = 32, GridY = 81, Periods = examplePeriods\<rparr>"

definition exampleService :: "(Forecasts, nat) Service" where
  "exampleService = standInService exampleForecasts (at 45) (Zone ''America/Chicago'')"

text \<open>A forecast whose only period lasts one tick.\<close>

definition oneTickForecasts :: Forecasts where
  "oneTickForecasts = \<lparr>GridX = 0, GridY = 0, Periods = [period 10 11 ''Sunny'']\<rparr>"

section \<open>Properties of package weathergov\<close>

subsection \<open>Substring search and the table\<close>

lemma Contains_iff: "Contains s sub \<longleftrightarrow> (\<exists>a b. s = a @ sub @ b)"
proof (induction s)
  case Nil
  then show ?case by auto
next
  case (Cons c cs)
  show ?case
  proof
    assume "Contains (c # cs) sub"
    then consider "prefix sub (c # cs)" | "Contains cs sub" by auto
    then show "\<exists>a b. c # cs = a @ sub @ b"
    proof cases
      case 1
      then obtain b where "c # cs = sub @ b" by (auto simp: prefix_def)
      then have "c # cs = [] @ sub @ b" by simp
      then show ?thesis by blast
    next
      case 2
      with Cons obtain a b where "cs = a @ sub @ b" by blast
      then have "c # cs = (c # a) @ sub @ b" by simp
      then show ?thesis by blast
    qed
  next
    assume "\<exists>a b. c # cs = a @ sub @ b"
    then obtain a b where ab: "c # cs = a @ sub @ b" by blast
    show "Contains (c # cs) sub"
    proof (cases a)
      case Nil
      with ab have "prefix sub (c # cs)" by (simp add: prefix_def)
      then show ?thesis by simp
    next
      case (Cons x a')
      with ab have "cs = a' @ sub @ b" by simp
      with Cons.IH have "Contains cs sub" by blast
      then show ?thesis by simp
    qed
  qed
qed

lemma map_of_spec_table:
  "map_of spec_table s =
     (if s = ''Clear'' \<or> s = ''Sunny'' then Some ClearSunny
      else if s = ''Mostly Clear'' \<or> s = ''Mostly Sunny'' then Some MostlyClearSunny
      else if s = ''Partly Cloudy'' \<or> s = ''Partly Sunny'' then Some PartlyCloudySunny
      else if s = ''Mostly Cloudy'' then Some MostlyCloudy
      else if s = ''Cloudy'' then Some Cloudy
      else None)"
  by (simp add: spec_table_def)

lemma switch_spec_classify: "switchShortForecast s = spec_classify s"
  by (simp add: switchShortForecast_def spec_classify_def map_of_spec_table
      estimateOpaqueCloudCoverage_def Contains_iff Let_def)

lemma switch_table_entries: "\<forall>(k, c) \<in> set spec_table. switchShortForecast k = c"
  by (simp add: spec_table_def switchShortForecast_def)

lemma switch_fallthrough:
  "s \<notin> fst ` set spec_table \<Longrightarrow> switchShortForecast s = estimateOpaqueCloudCoverage s"
  by (auto simp: spec_table_def switchShortForecast_def)

lemma switch_Rain_and_Snow: "switchShortForecast ''Rain and Snow'' = Rain"
  by code_simp

lemma estimate_cloudy_lower: "estimateOpaqueCloudCoverage ''cloudy'' = UnknownOpaqueCloudCoverage"
  by code_simp

lemma switch_Snow_Showers: "switchShortForecast ''Chance Snow Showers'' = Snow"
  by code_simp

lemma classifyPeriods_length: "length (classifyPeriods ps) = length ps"
  by (induction ps) simp_all

lemma classifyPeriods_nth:
  "i < length ps \<Longrightarrow>
   classifyPeriods ps ! i =
     (ps ! i)\<lparr>OpaqueCloudCoverage := switchShortForecast (ShortForecast (ps ! i))\<rparr>"
proof (induction ps arbitrary: i)
  case Nil
  then show ?case by simp
next
  case (Cons p ps)
  then show ?case by (cases i) simp_all
qed

text \<open>
  Claim C1. Classification is a function of the text alone, in two tiers. A text that is
  one of the eight canonical phrases, compared byte for byte, gets the category of the
  table (Clear, Sunny: \<open>ClearSunny\<close>; Mostly Clear, Mostly Sunny: \<open>MostlyClearSunny\<close>;
  Partly Cloudy, Partly Sunny: \<open>PartlyCloudySunny\<close>; Mostly Cloudy: \<open>MostlyCloudy\<close>;
  Cloudy: \<open>Cloudy\<close>). Any other text goes to the heuristic on the lower-cased text: \<open>Rain\<close>
  if it contains "rain", else \<open>Snow\<close> if it contains "snow", else unknown; so "Rain and Snow"
  is \<open>Rain\<close>, and "cloudy", a canonical phrase with its case altered, is not found in the
  table and goes through the heuristic. Every period of a fetched forecast gets the
  category of its own text this way.
\<close>

theorem C1_two_tier_classification:
  "switchShortForecast s = spec_classify s
   \<and> (\<forall>(k, c) \<in> set spec_table. switchShortForecast k = c)
   \<and> (s \<notin> fst ` set spec_table \<longrightarrow>
        switchShortForecast s = estimateOpaqueCloudCoverage s
        \<and> switchShortForecast s =
            (if Contains (ToLower s) ''rain'' then Rain
             else if Contains (ToLower s) ''snow'' then Snow
             else UnknownOpaqueCloudCoverage))
   \<and> switchShortForecast ''Rain and Snow'' = Rain
   \<and> ''cloudy'' \<notin> fst ` set spec_table
   \<and> switchShortForecast ''cloudy'' = estimateOpaqueCloudCoverage ''cloudy''
   \<and> switchShortForecast ''cloudy'' = UnknownOpaqueCloudCoverage
   \<and> length (classifyPeriods ps) = length ps
   \<and> (\<forall>i < length ps.
        classifyPeriods ps ! i =
          (ps ! i)\<lparr>OpaqueCloudCoverage := switchShortForecast (ShortForecast (ps ! i))\<rparr>)"
proof -
  have spec: "switchShortForecast s = spec_classify s"
    by (rule switch_spec_classify)
  have tab: "\<forall>(k, c) \<in> set spec_table. switchShortForecast k = c"
    by (rule switch_table_entries)
  have fall: "s \<notin> fst ` set spec_table \<longrightarrow>
        switchShortForecast s = estimateOpaqueCloudCoverage s
        \<and> switchShortForecast s =
            (if Contains (ToLower s) ''rain'' then Rain
             else if Contains (ToLower s) ''snow'' then Snow
             else UnknownOpaqueCloudCoverage)"
    using switch_fallthrough [of s] by (simp add: estimateOpaqueCloudCoverage_def Let_def)
  have rs: "switchShortForecast ''Rain and Snow'' = Rain"
    by (rule switch_Rain_and_Snow)
  have notin: "''cloudy'' \<notin> fst ` set spec_table"
    by (simp add: spec_table_def)
  have low: "switchShortForecast ''cloudy'' = estimateOpaqueCloudCoverage ''cloudy''"
    using switch_fallthrough [OF notin] .
  have unk: "switchShortForecast ''cloudy'' = UnknownOpaqueCloudCoverage"
    using low estimate_cloudy_lower by simp
  have len: "length (classifyPeriods ps) = length ps"
    by (rule classifyPeriods_length)
  have nth: "\<forall>i < length ps.
        classifyPeriods ps ! i =
          (ps ! i)\<lparr>OpaqueCloudCoverage := switchShortForecast (ShortForecast (ps ! i))\<rparr>"
    using classifyPeriods_nth [of _ ps] by blast
  show ?thesis
    by (intro conjI; fact)
qed

theorem C1_two_tier_classification_witness:
  "''Chance Snow Showers'' \<notin> fst ` set spec_table
   \<and> switchShortForecast ''Chance Snow Showers'' = estimateOpaqueCloudCoverage ''Chance Snow Showers''
   \<and> estimateOpaqueCloudCoverage ''Chance Snow Showers'' = Snow
   \<and> switchShortForecast ''Mostly Sunny'' = MostlyClearSunny
   \<and> length (classifyPeriods examplePeriods) = length examplePeriods"
proof -
  have notin: "''Chance Snow Showers'' \<notin> fst ` set spec_table"
    by (simp add: spec_table_def)
  have tab: "(''Mostly Sunny'', MostlyClearSunny) \<in> set spec_table"
    by (simp add: spec_table_def)
  note C1 = C1_two_tier_classification [of "''Chance Snow Showers''" examplePeriods]
  from C1 have c: "\<forall>(k, c) \<in> set spec_table. switchShortForecast k = c"
    by (elim conjE)
  from C1 notin have f: "switchShortForecast ''Chance Snow Showers'' =
              estimateOpaqueCloudCoverage ''Chance Snow Showers''"
    by (elim conjE) blast
  from C1 have l: "length (classifyPeriods examplePeriods) = length examplePeriods"
    by (elim conjE)
  from c tab have m: "switchShortForecast ''Mostly Sunny'' = MostlyClearSunny" by auto
  from f switch_Snow_Showers
  have e: "estimateOpaqueCloudCoverage ''Chance Snow Showers'' = Snow" by simp
  show ?thesis
    by (intro conjI; fact)
qed

subsection \<open>Period lookup\<close>

lemma matches_inside:
  "(Before (StartTime f) when \<and> After (EndTime f) when) = inside f when"
  by (auto simp: Before_def After_def inside_def)

lemma ForTime_range_spec: "ForTime_range ps when = spec_PeriodFor ps when"
  by (induction ps) (simp_all add: spec_PeriodFor_def matches_inside)

lemma ForTime_range_found:
  "ForTime_range ps when = (g, True) \<Longrightarrow> g \<in> set ps \<and> inside g when"
  by (induction ps) (auto simp: matches_inside split: if_splits)

lemma ForTime_range_none:
  "(\<forall>g \<in> set ps. \<not> inside g when) \<Longrightarrow> ForTime_range ps when = (zeroForecast, False)"
  by (induction ps) (simp_all add: matches_inside)

lemma ForTime_range_first:
  "i < length ps \<Longrightarrow> inside (ps ! i) when \<Longrightarrow> (\<forall>j < i. \<not> inside (ps ! j) when) \<Longrightarrow>
   ForTime_range ps when = (ps ! i, True)"
proof (induction ps arbitrary: i)
  case Nil
  then show ?case by simp
next
  case (Cons p ps)
  show ?case
  proof (cases i)
    case 0
    with Cons.prems show ?thesis by (simp add: matches_inside)
  next
    case (Suc k)
    with Cons.prems have np: "\<not> inside p when" by auto
    from Suc Cons.prems have k: "k < length ps" "inside (ps ! k) when" by simp_all
    have "\<forall>j < k. \<not> inside (ps ! j) when"
    proof (intro allI impI)
      fix j assume "j < k"
      then have "Suc j < i" using Suc by simp
      with Cons.prems(3) have "\<not> inside ((p # ps) ! Suc j) when" by blast
      then show "\<not> inside (ps ! j) when" by simp
    qed
    with Cons.IH k have "ForTime_range ps when = (ps ! k, True)" by blast
    with np Suc show ?thesis by (simp add: matches_inside)
  qed
qed

text \<open>
  Claim C10. \<open>ForTime\<close> scans the periods in stored order and returns the first one whose
  strict interior contains \<open>when\<close>: the period at index \<open>i\<close> is returned when it contains
  \<open>when\<close> and no period before it does, so of two overlapping periods that both contain
  \<open>when\<close> the earlier one is the answer. When the list is empty or no period contains
  \<open>when\<close>, the result is the zero \<open>Forecast\<close> and false.
\<close>

theorem C10_ForTime_first_in_order:
  "ForTime fc when = spec_PeriodFor (Periods fc) when
   \<and> (\<forall>i < length (Periods fc).
        inside (Periods fc ! i) when \<and> (\<forall>j < i. \<not> inside (Periods fc ! j) when) \<longrightarrow>
        ForTime fc when = (Periods fc ! i, True))
   \<and> (\<forall>i j. i < j \<and> j < length (Periods fc)
          \<and> inside (Periods fc ! i) when \<and> inside (Periods fc ! j) when
          \<and> (\<forall>k < i. \<not> inside (Periods fc ! k) when) \<longrightarrow>
        ForTime fc when = (Periods fc ! i, True))
   \<and> ((\<forall>f \<in> set (Periods fc). \<not> inside f when) \<longrightarrow>
        ForTime fc when = (zeroForecast, False))
   \<and> (Periods fc = [] \<longrightarrow> ForTime fc when = (zeroForecast, False))"
proof -
  have spec: "ForTime fc when = spec_PeriodFor (Periods fc) when"
    by (simp add: ForTime_def ForTime_range_spec)
  have first: "\<forall>i < length (Periods fc).
        inside (Periods fc ! i) when \<and> (\<forall>j < i. \<not> inside (Periods fc ! j) when) \<longrightarrow>
        ForTime fc when = (Periods fc ! i, True)"
    using ForTime_range_first [of _ "Periods fc" "when"] by (simp add: ForTime_def)
  have overlap: "\<forall>i j. i < j \<and> j < length (Periods fc)
          \<and> inside (Periods fc ! i) when \<and> inside (Periods fc ! j) when
          \<and> (\<forall>k < i. \<not> inside (Periods fc ! k) when) \<longrightarrow>
        ForTime fc when = (Periods fc ! i, True)"
  proof (intro allI impI)
    fix i j
    assume h: "i < j \<and> j < length (Periods fc)
          \<and> inside (Periods fc ! i) when \<and> inside (Periods fc ! j) when
          \<and> (\<forall>k < i. \<not> inside (Periods fc ! k) when)"
    then have "i < length (Periods fc)" by simp
    with first h show "ForTime fc when = (Periods fc ! i, True)" by blast
  qed
  have none: "(\<forall>f \<in> set (Periods fc). \<not> inside f when) \<longrightarrow>
        ForTime fc when = (zeroForecast, False)"
    using ForTime_range_none [of "Periods fc" "when"] by (simp add: ForTime_def)
  have empty: "Periods fc = [] \<longrightarrow> ForTime fc when = (zeroForecast, False)"
    by (simp add: ForTime_def)
  show ?thesis
    by (intro conjI; fact)
qed

lemma example_inside_35:
  "2 < length (Periods exampleForecasts)
   \<and> inside (Periods exampleForecasts ! 2) (at 35)
   \<and> inside (Periods exampleForecasts ! 3) (at 35)
   \<and> \<not> inside (Periods exampleForecasts ! 0) (at 35)
   \<and> \<not> inside (Periods exampleForecasts ! 1) (at 35)"
  by code_simp

lemma less_2_cases: "j < (2::nat) \<Longrightarrow> j = 0 \<or> j = 1"
  by arith

theorem C10_ForTime_first_in_order_witness:
  "inside (Periods exampleForecasts ! 2) (at 35)
   \<and> inside (Periods exampleForecasts ! 3) (at 35)
   \<and> ForTime exampleForecasts (at 35) = (Periods exampleForecasts ! 2, True)
   \<and> Periods exampleForecasts ! 2 = period 20 40 ''Rain and Snow''"
proof -
  note ex = example_inside_35
  have before: "\<forall>j < 2. \<not> inside (Periods exampleForecasts ! j) (at 35)"
  proof (intro allI impI)
    fix j :: nat assume "j < 2"
    then have "j = 0 \<or> j = 1" by (rule less_2_cases)
    with ex show "\<not> inside (Periods exampleForecasts ! j) (at 35)" by auto
  qed
  from C10_ForTime_first_in_order [of exampleForecasts "at 35"]
  have "\<forall>i < length (Periods exampleForecasts).
        inside (Periods exampleForecasts ! i) (at 35)
        \<and> (\<forall>j < i. \<not> inside (Periods exampleForecasts ! j) (at 35)) \<longrightarrow>
        ForTime exampleForecasts (at 35) = (Periods exampleForecasts ! i, True)"
    by (elim conjE)
  with ex before
  have r: "ForTime exampleForecasts (at 35) = (Periods exampleForecasts ! 2, True)" by blast
  have p: "Periods exampleForecasts ! 2 = period 20 40 ''Rain and Snow''"
    by (simp add: exampleForecasts_def examplePeriods_def)
  from ex r p show ?thesis by blast
qed

text \<open>
  Claim C3, as amended. \<open>ForTime\<close> matches the strict interior of a period only. Whatever
  period it returns starts strictly before \<open>when\<close> and ends strictly after it. A period
  \<open>f\<close> of the forecast is not returned at the instant of its own start or of its own end,
  and the result there is not-found when no other period contains that instant. One tick
  after its start, \<open>f\<close> is returned provided that this instant is still before the end of \<open>f\<close>
  and that no period stored before \<open>f\<close> contains it.
\<close>

theorem C3_ForTime_strict_interior:
  assumes "i < length (Periods fc)"
    and "f = Periods fc ! i"
  shows "(\<forall>g. ForTime fc when = (g, True) \<longrightarrow>
            g \<in> set (Periods fc) \<and> Before (StartTime g) when \<and> After (EndTime g) when)
       \<and> (Equal when (StartTime f) \<or> Equal when (EndTime f) \<longrightarrow>
            ForTime fc when \<noteq> (f, True)
            \<and> ((\<forall>g \<in> set (Periods fc). g \<noteq> f \<longrightarrow> \<not> inside g when) \<longrightarrow>
                 ForTime fc when = (zeroForecast, False)))
       \<and> (Before (tick (StartTime f)) (EndTime f)
            \<and> (\<forall>j < i. \<not> inside (Periods fc ! j) (tick (StartTime f))) \<longrightarrow>
            ForTime fc (tick (StartTime f)) = (f, True))"
proof -
  have found: "\<forall>g. ForTime fc when = (g, True) \<longrightarrow>
            g \<in> set (Periods fc) \<and> Before (StartTime g) when \<and> After (EndTime g) when"
    using ForTime_range_found [of "Periods fc" "when"]
    by (auto simp: ForTime_def matches_inside)
  have boundary: "Equal when (StartTime f) \<or> Equal when (EndTime f) \<longrightarrow>
            ForTime fc when \<noteq> (f, True)
            \<and> ((\<forall>g \<in> set (Periods fc). g \<noteq> f \<longrightarrow> \<not> inside g when) \<longrightarrow>
                 ForTime fc when = (zeroForecast, False))"
  proof (intro impI conjI)
    assume eq: "Equal when (StartTime f) \<or> Equal when (EndTime f)"
    then have nf: "\<not> inside f when"
      by (auto simp: Equal_def inside_def)
    show "ForTime fc when \<noteq> (f, True)"
    proof
      assume "ForTime fc when = (f, True)"
      then have "inside f when"
        using ForTime_range_found [of "Periods fc" "when" f] by (simp add: ForTime_def)
      with nf show False by simp
    qed
    assume "\<forall>g \<in> set (Periods fc). g \<noteq> f \<longrightarrow> \<not> inside g when"
    with nf have "\<forall>g \<in> set (Periods fc). \<not> inside g when" by auto
    then show "ForTime fc when = (zeroForecast, False)"
      using ForTime_range_none [of "Periods fc" "when"] by (simp add: ForTime_def)
  qed
  have next_tick: "Before (tick (StartTime f)) (EndTime f)
            \<and> (\<forall>j < i. \<not> inside (Periods fc ! j) (tick (StartTime f))) \<longrightarrow>
            ForTime fc (tick (StartTime f)) = (f, True)"
  proof
    assume h: "Before (tick (StartTime f)) (EndTime f)
            \<and> (\<forall>j < i. \<not> inside (Periods fc ! j) (tick (StartTime f)))"
    then have "inside f (tick (StartTime f))"
      by (simp add: Before_def inside_def tick_def)
    with assms h show "ForTime fc (tick (StartTime f)) = (f, True)"
      using ForTime_range_first [of i "Periods fc" "tick (StartTime f)"]
      by (simp add: ForTime_def)
  qed
  show ?thesis
    by (intro conjI; fact)
qed

text \<open>
  Against claim C3 as it is worded (one tick after its start a period is returned, for
  every forecast and period): the fourth example period runs from 30 to 50 and the third
  from 20 to 40, so one tick after the start of the fourth the lookup returns the third;
  and a period that lasts a single tick is not returned one tick after its start.
\<close>

theorem C3_ForTime_strict_interior_counterexample:
  "3 < length (Periods exampleForecasts)
   \<and> ForTime exampleForecasts (tick (StartTime (Periods exampleForecasts ! 3)))
       = (Periods exampleForecasts ! 2, True)
   \<and> ForTime exampleForecasts (tick (StartTime (Periods exampleForecasts ! 3)))
       \<noteq> (Periods exampleForecasts ! 3, True)
   \<and> ForTime oneTickForecasts (tick (StartTime (Periods oneTickForecasts ! 0)))
       = (zeroForecast, False)"
  by code_simp

lemma example_boundary_10:
  "0 < length (Periods exampleForecasts)
   \<and> Equal (at 10) (EndTime (Periods exampleForecasts ! 0))
   \<and> (\<forall>g \<in> set (Periods exampleForecasts).
         g \<noteq> Periods exampleForecasts ! 0 \<longrightarrow> \<not> inside g (at 10))
   \<and> Before (tick (StartTime (Periods exampleForecasts ! 0)))
         (EndTime (Periods exampleForecasts ! 0))"
  by code_simp

theorem C3_ForTime_strict_interior_witness:
  "Equal (at 10) (EndTime (Periods exampleForecasts ! 0))
   \<and> ForTime exampleForecasts (at 10) = (zeroForecast, False)
   \<and> Before (tick (StartTime (Periods exampleForecasts ! 0)))
        (EndTime (Periods exampleForecasts ! 0))
   \<and> ForTime exampleForecasts (tick (StartTime (Periods exampleForecasts ! 0)))
       = (Periods exampleForecasts ! 0, True)"
proof -
  from example_boundary_10
  have len: "0 < length (Periods exampleForecasts)"
    and e: "Equal (at 10) (EndTime (Periods exampleForecasts ! 0))"
    and others: "\<forall>g \<in> set (Periods exampleForecasts).
         g \<noteq> Periods exampleForecasts ! 0 \<longrightarrow> \<not> inside g (at 10)"
    and b: "Before (tick (StartTime (Periods exampleForecasts ! 0)))
         (EndTime (Periods exampleForecasts ! 0))"
    by simp_all
  note C3 = C3_ForTime_strict_interior [OF len refl, of "at 10"]
  from C3 e others
  have r1: "ForTime exampleForecasts (at 10) = (zeroForecast, False)"
    by (elim conjE) simp
  from C3 b
  have r2: "ForTime exampleForecasts (tick (StartTime (Periods exampleForecasts ! 0)))
       = (Periods exampleForecasts ! 0, True)"
    by (elim conjE) simp
  show ?thesis
    by (intro conjI; fact)
qed

section \<open>Properties of package weatherdev\<close>

subsection \<open>The integer order and the order of the specification\<close>

lemma spec_le_iota: "spec_le a b = (iota a \<le> iota b)"
  by (cases a; cases b; simp add: spec_le_def spec_order_def)

lemma iota_inj: "(iota a = iota b) = (a = b)"
  by (cases a; cases b; simp)

subsection \<open>The outcomes of \<open>opacity\<close>\<close>

lemma substituteDue_Args:
  "substituteDue sv (opts\<lparr>Args := as\<rparr>) w = substituteDue sv opts w"
  by (simp add: substituteDue_def)

lemma opacity_unknown_arg:
  assumes "Args opts = [arg]"
    and "CloudOpacityFromShortForecast sv arg = UnknownOpaqueCloudCoverage"
  shows "opacity sv opts w = (Inl (UnknownCloudCover arg), w)"
  using assms by (simp add: opacity_def)

lemma opacity_after_fetch:
  assumes "Args opts = [arg]"
    and "CloudOpacityFromShortForecast sv arg \<noteq> UnknownOpaqueCloudCoverage"
    and "serviceForecasts sv w = (Inr fc, w')"
    and "PeriodFor sv fc (substituteDue sv opts w') = (p, ok)"
  shows "opacity sv opts w =
     (if \<not> ok then Inl (NoForecastAvailable (substituteDue sv opts w'))
      else if CloudOpacityFromShortForecast sv (ShortForecast p) = UnknownOpaqueCloudCoverage
      then Inl (UnknownCloudCoverInForecast (ShortForecast p))
      else Inr (CloudOpacityFromShortForecast sv (ShortForecast p),
                CloudOpacityFromShortForecast sv arg), w')"
  using assms by (simp add: opacity_def Let_def)

lemma opacity_unknown_period_any:
  assumes "serviceForecasts sv w = (Inr fc, w')"
    and "PeriodFor sv fc (substituteDue sv opts w') = (p, True)"
    and "CloudOpacityFromShortForecast sv (ShortForecast p) = UnknownOpaqueCloudCoverage"
  shows "\<exists>e w1. opacity sv opts w = (Inl e, w1)"
  using assms by (auto simp: opacity_def Let_def)

lemma opacity_unknown_period:
  assumes "length (Args opts) = 1"
    and "CloudOpacityFromShortForecast sv (Args opts ! 0) \<noteq> UnknownOpaqueCloudCoverage"
    and "serviceForecasts sv w = (Inr fc, w')"
    and "PeriodFor sv fc (substituteDue sv opts w') = (p, True)"
    and "CloudOpacityFromShortForecast sv (ShortForecast p) = UnknownOpaqueCloudCoverage"
  shows "opacity sv opts w = (Inl (UnknownCloudCoverInForecast (ShortForecast p)), w')"
  using assms by (simp add: opacity_def Let_def)

lemma condition_error:
  "opacity sv opts w = (Inl e, w1) \<Longrightarrow>
   Opacity sv opts w = (Inl e, w1) \<and> MaxOpacity sv opts w = (Inl e, w1)
   \<and> MinOpacity sv opts w = (Inl e, w1)"
  by (simp add: Opacity_def MaxOpacity_def MinOpacity_def)

subsection \<open>The example service\<close>

lemma example_fetch: "serviceForecasts exampleService 0 = (Inr exampleForecasts, 1)"
  by (simp add: exampleService_def standInService_def)

lemma example_classifier:
  "CloudOpacityFromShortForecast exampleService = standInCloudOpacity"
  by (simp add: exampleService_def standInService_def)

lemma example_classes:
  "standInCloudOpacity ''Cloudy'' = Cloudy"
  "standInCloudOpacity ''Mostly Cloudy'' = MostlyCloudy"
  "standInCloudOpacity ''Mostly Sunny'' = MostlyClearSunny"
  "standInCloudOpacity ''Sunny'' = ClearSunny"
  "standInCloudOpacity ''Blustery'' = UnknownOpaqueCloudCoverage"
  "standInCloudOpacity ''Chance Snow Showers'' = UnknownOpaqueCloudCoverage"
  by code_simp+

lemma ShortForecast_period: "ShortForecast (period s e txt) = txt"
  by (simp add: period_def)

text \<open>
  Claim C2. Let the period that covers the requested time have category \<open>A\<close> and let the
  argument text classify to \<open>B\<close>, both on the scale from clear to cloudy. Then
  max-cloud-cover (\<open>MaxOpacity\<close>) answers whether \<open>A\<close> is at most \<open>B\<close> in the order of the
  specification, min-cloud-cover (\<open>MinOpacity\<close>) whether \<open>A\<close> is at least \<open>B\<close>, and
  cloud-cover (\<open>Opacity\<close>) whether they are equal; so cloud-cover holds exactly when the
  other two both hold.
\<close>

theorem C2_ordering_law:
  assumes "Args opts = [arg]"
    and "serviceForecasts sv w = (Inr fc, w')"
    and "PeriodFor sv fc (substituteDue sv opts w') = (p, True)"
    and "CloudOpacityFromShortForecast sv (ShortForecast p) = A"
    and "CloudOpacityFromShortForecast sv arg = B"
    and "A \<in> set cloudScale"
    and "B \<in> set cloudScale"
  shows "MaxOpacity sv opts w = (Inr (spec_le A B), w')
       \<and> MinOpacity sv opts w = (Inr (spec_le B A), w')
       \<and> Opacity sv opts w = (Inr (A = B), w')
       \<and> (fst (Opacity sv opts w) = Inr True \<longleftrightarrow>
            fst (MaxOpacity sv opts w) = Inr True \<and> fst (MinOpacity sv opts w) = Inr True)"
proof -
  have A: "A \<noteq> UnknownOpaqueCloudCoverage" and B: "B \<noteq> UnknownOpaqueCloudCoverage"
    using assms(6,7) by (auto simp: cloudScale_def)
  have op: "opacity sv opts w = (Inr (A, B), w')"
    using opacity_after_fetch [of opts arg sv w fc w' p True] assms(1-5) A B by simp
  have mx: "MaxOpacity sv opts w = (Inr (spec_le A B), w')"
    by (simp add: MaxOpacity_def op spec_le_iota)
  have mn: "MinOpacity sv opts w = (Inr (spec_le B A), w')"
    by (simp add: MinOpacity_def op spec_le_iota)
  have eq: "Opacity sv opts w = (Inr (A = B), w')"
    by (simp add: Opacity_def op iota_inj)
  have "(A = B) = (spec_le A B \<and> spec_le B A)"
    by (auto simp: spec_le_iota iota_inj [symmetric])
  with mx mn eq show ?thesis by simp
qed

lemma example_lookup_45:
  "PeriodFor exampleService exampleForecasts
     (substituteDue exampleService \<lparr>Due = at 45, Args = [''Cloudy'']\<rparr> 1)
   = (period 30 50 ''Mostly Cloudy'', True)"
  by code_simp

theorem C2_ordering_law_witness:
  "MaxOpacity exampleService \<lparr>Due = at 45, Args = [''Cloudy'']\<rparr> 0 = (Inr True, 1)
   \<and> MinOpacity exampleService \<lparr>Due = at 45, Args = [''Cloudy'']\<rparr> 0 = (Inr False, 1)
   \<and> Opacity exampleService \<lparr>Due = at 45, Args = [''Cloudy'']\<rparr> 0 = (Inr False, 1)"
proof -
  have a: "Args \<lparr>Due = at 45, Args = [''Cloudy'']\<rparr> = [''Cloudy'']" by simp
  have A: "CloudOpacityFromShortForecast exampleService
             (ShortForecast (period 30 50 ''Mostly Cloudy'')) = MostlyCloudy"
    by (simp add: example_classifier ShortForecast_period example_classes)
  have B: "CloudOpacityFromShortForecast exampleService ''Cloudy'' = Cloudy"
    by (simp add: example_classifier example_classes)
  have sA: "MostlyCloudy \<in> set cloudScale" and sB: "Cloudy \<in> set cloudScale"
    by (simp_all add: cloudScale_def)
  from C2_ordering_law [OF a example_fetch example_lookup_45 A B sA sB]
  show ?thesis by (simp add: spec_le_def spec_order_def)
qed






text \<open>
  Claim C5, as amended. Let the period that covers the requested time have a text that
  classifies to unknown. Then every condition returns an error, never a truth value. For
  cloud-cover, max-cloud-cover and min-cloud-cover called with exactly one argument that
  classifies to a known category, and for the derived conditions whose fixed argument
  classifies to a known category, that error is the unknown-category-in-forecast error
  carrying the period's text.
\<close>

theorem C5_unknown_category_in_forecast:
  assumes "serviceForecasts sv w = (Inr fc, w')"
    and "PeriodFor sv fc (substituteDue sv opts w') = (p, True)"
    and "CloudOpacityFromShortForecast sv (ShortForecast p) = UnknownOpaqueCloudCoverage"
  shows "(\<forall>c \<in> {Opacity sv, MaxOpacity sv, MinOpacity sv,
                 MostlySunny sv, PartlyCloudy sv, MostlyCloudyCond sv}.
            \<exists>e. fst (c opts w) = Inl e)
       \<and> (length (Args opts) = 1
            \<and> CloudOpacityFromShortForecast sv (Args opts ! 0) \<noteq> UnknownOpaqueCloudCoverage
          \<longrightarrow> (\<forall>c \<in> {Opacity sv, MaxOpacity sv, MinOpacity sv}.
                 c opts w = (Inl (UnknownCloudCoverInForecast (ShortForecast p)), w')))
       \<and> (CloudOpacityFromShortForecast sv ''Mostly Sunny'' \<noteq> UnknownOpaqueCloudCoverage
          \<longrightarrow> MostlySunny sv opts w
                = (Inl (UnknownCloudCoverInForecast (ShortForecast p)), w'))
       \<and> (CloudOpacityFromShortForecast sv ''Partly Sunny'' \<noteq> UnknownOpaqueCloudCoverage
          \<longrightarrow> PartlyCloudy sv opts w
                = (Inl (UnknownCloudCoverInForecast (ShortForecast p)), w'))
       \<and> (CloudOpacityFromShortForecast sv ''Mostly Cloudy'' \<noteq> UnknownOpaqueCloudCoverage
          \<longrightarrow> MostlyCloudyCond sv opts w
                = (Inl (UnknownCloudCoverInForecast (ShortForecast p)), w'))"
proof -
  have any: "\<exists>e w1. opacity sv (opts\<lparr>Args := as\<rparr>) w = (Inl e, w1)" for as
    using opacity_unknown_period_any [of sv w fc w' "opts\<lparr>Args := as\<rparr>" p] assms
    by (simp add: substituteDue_Args)
  have base: "\<exists>e w1. opacity sv opts w = (Inl e, w1)"
    using opacity_unknown_period_any [OF assms] .
  have fixed: "opacity sv (opts\<lparr>Args := [a]\<rparr>) w
                 = (Inl (UnknownCloudCoverInForecast (ShortForecast p)), w')"
    if "CloudOpacityFromShortForecast sv a \<noteq> UnknownOpaqueCloudCoverage" for a
    using opacity_unknown_period [of "opts\<lparr>Args := [a]\<rparr>" sv w fc w' p] assms that
    by (simp add: substituteDue_Args)
  have all: "\<forall>c \<in> {Opacity sv, MaxOpacity sv, MinOpacity sv,
                 MostlySunny sv, PartlyCloudy sv, MostlyCloudyCond sv}.
            \<exists>e. fst (c opts w) = Inl e"
  proof -
    obtain e w1 where e: "opacity sv opts w = (Inl e, w1)" using base by blast
    obtain e1 w2 where e1: "opacity sv (opts\<lparr>Args := [''Mostly Sunny'']\<rparr>) w = (Inl e1, w2)"
      using any by blast
    obtain e2 w3 where e2: "opacity sv (opts\<lparr>Args := [''Partly Sunny'']\<rparr>) w = (Inl e2, w3)"
      using any by blast
    obtain e3 w4 where e3: "opacity sv (opts\<lparr>Args := [''Mostly Cloudy'']\<rparr>) w = (Inl e3, w4)"
      using any by blast
    from condition_error [OF e] condition_error [OF e1] condition_error [OF e2]
      condition_error [OF e3]
    show ?thesis
      by (simp add: MostlySunny_def PartlyCloudy_def MostlyCloudyCond_def)
  qed
  have three: "length (Args opts) = 1
            \<and> CloudOpacityFromShortForecast sv (Args opts ! 0) \<noteq> UnknownOpaqueCloudCoverage
          \<longrightarrow> (\<forall>c \<in> {Opacity sv, MaxOpacity sv, MinOpacity sv}.
                 c opts w = (Inl (UnknownCloudCoverInForecast (ShortForecast p)), w'))"
  proof
    assume h: "length (Args opts) = 1
            \<and> CloudOpacityFromShortForecast sv (Args opts ! 0) \<noteq> UnknownOpaqueCloudCoverage"
    then have "opacity sv opts w = (Inl (UnknownCloudCoverInForecast (ShortForecast p)), w')"
      using opacity_unknown_period [of opts sv w fc w' p] assms by simp
    from condition_error [OF this]
    show "\<forall>c \<in> {Opacity sv, MaxOpacity sv, MinOpacity sv}.
                 c opts w = (Inl (UnknownCloudCoverInForecast (ShortForecast p)), w')"
      by simp
  qed
  have ms: "CloudOpacityFromShortForecast sv ''Mostly Sunny'' \<noteq> UnknownOpaqueCloudCoverage
          \<longrightarrow> MostlySunny sv opts w
                = (Inl (UnknownCloudCoverInForecast (ShortForecast p)), w')"
    using condition_error [OF fixed [of "''Mostly Sunny''"]] by (simp add: MostlySunny_def)
  have pc: "CloudOpacityFromShortForecast sv ''Partly Sunny'' \<noteq> UnknownOpaqueCloudCoverage
          \<longrightarrow> PartlyCloudy sv opts w
                = (Inl (UnknownCloudCoverInForecast (ShortForecast p)), w')"
    using condition_error [OF fixed [of "''Partly Sunny''"]] by (simp add: PartlyCloudy_def)
  have mc: "CloudOpacityFromShortForecast sv ''Mostly Cloudy'' \<noteq> UnknownOpaqueCloudCoverage
          \<longrightarrow> MostlyCloudyCond sv opts w
                = (Inl (UnknownCloudCoverInForecast (ShortForecast p)), w')"
    using condition_error [OF fixed [of "''Mostly Cloudy''"]] by (simp add: MostlyCloudyCond_def)
  show ?thesis
    by (intro conjI; fact)
qed

text \<open>
  Against claim C5 as it is worded (every invocation on such a period fails with the
  unknown-category-in-forecast error): the period covering instant 15 holds "Blustery",
  which classifies to unknown, and cloud-cover called there with the argument "Blustery"
  fails with the unknown-cloud-cover error of the argument check, before any fetch.
\<close>

theorem C5_unknown_category_in_forecast_counterexample:
  "PeriodFor exampleService exampleForecasts (at 15) = (period 10 20 ''Blustery'', True)
   \<and> CloudOpacityFromShortForecast exampleService
        (ShortForecast (period 10 20 ''Blustery'')) = UnknownOpaqueCloudCoverage
   \<and> Opacity exampleService \<lparr>Due = at 15, Args = [''Blustery'']\<rparr> 0
       = (Inl (UnknownCloudCover ''Blustery''), 0)
   \<and> fst (Opacity exampleService \<lparr>Due = at 15, Args = [''Blustery'']\<rparr> 0)
       \<noteq> Inl (UnknownCloudCoverInForecast ''Blustery'')"
  by code_simp

lemma example_lookup_15:
  "PeriodFor exampleService exampleForecasts
     (substituteDue exampleService \<lparr>Due = at 15, Args = [''Cloudy'']\<rparr> 1)
   = (period 10 20 ''Blustery'', True)"
  by code_simp

theorem C5_unknown_category_in_forecast_witness:
  "CloudOpacityFromShortForecast exampleService
     (ShortForecast (period 10 20 ''Blustery'')) = UnknownOpaqueCloudCoverage
   \<and> Opacity exampleService \<lparr>Due = at 15, Args = [''Cloudy'']\<rparr> 0
       = (Inl (UnknownCloudCoverInForecast ''Blustery''), 1)
   \<and> MinOpacity exampleService \<lparr>Due = at 15, Args = [''Cloudy'']\<rparr> 0
       = (Inl (UnknownCloudCoverInForecast ''Blustery''), 1)
   \<and> MostlySunny exampleService \<lparr>Due = at 15, Args = [''Cloudy'']\<rparr> 0
       = (Inl (UnknownCloudCoverInForecast ''Blustery''), 1)"
proof -
  have u: "CloudOpacityFromShortForecast exampleService
     (ShortForecast (period 10 20 ''Blustery'')) = UnknownOpaqueCloudCoverage"
    by (simp add: example_classifier ShortForecast_period example_classes)
  have a: "length (Args \<lparr>Due = at 15, Args = [''Cloudy'']\<rparr>) = 1
     \<and> CloudOpacityFromShortForecast exampleService
         (Args \<lparr>Due = at 15, Args = [''Cloudy'']\<rparr> ! 0) \<noteq> UnknownOpaqueCloudCoverage"
    by (simp add: example_classifier example_classes)
  have m: "CloudOpacityFromShortForecast exampleService ''Mostly Sunny''
             \<noteq> UnknownOpaqueCloudCoverage"
    by (simp add: example_classifier example_classes)
  note C5 = C5_unknown_category_in_forecast [OF example_fetch example_lookup_15 u]
  from C5 a
  have r1: "Opacity exampleService \<lparr>Due = at 15, Args = [''Cloudy'']\<rparr> 0
       = (Inl (UnknownCloudCoverInForecast ''Blustery''), 1)"
    by (elim conjE) (simp add: ShortForecast_period)
  from C5 a
  have r2: "MinOpacity exampleService \<lparr>Due = at 15, Args = [''Cloudy'']\<rparr> 0
       = (Inl (UnknownCloudCoverInForecast ''Blustery''), 1)"
    by (elim conjE) (simp add: ShortForecast_period)
  from C5 m
  have r3: "MostlySunny exampleService \<lparr>Due = at 15, Args = [''Cloudy'']\<rparr> 0
       = (Inl (UnknownCloudCoverInForecast ''Blustery''), 1)"
    by (elim conjE) (simp add: ShortForecast_period)
  show ?thesis
    by (intro conjI; fact)
qed

text \<open>
  Claim C6, as amended. When the argument text classifies to unknown, the shared evaluation
  \<open>opacity\<close>, and with it cloud-cover, max-cloud-cover and min-cloud-cover, fails with the
  unknown-cloud-cover error (the specification's InvalidArgument) and leaves the world as
  it was: the forecast service, the only way to the network, has not been called, whatever
  it would have answered. The derived conditions mostly-sunny, partly-cloudy, partly-sunny
  and mostly-cloudy replace the caller's argument by their fixed text before that check, so
  their result is the same for every argument the caller passes.
\<close>

theorem C6_unknown_argument_before_fetch:
  assumes "Args opts = [arg]"
    and "CloudOpacityFromShortForecast sv arg = UnknownOpaqueCloudCoverage"
  shows "opacity sv opts w = (Inl (UnknownCloudCover arg), w)
       \<and> Opacity sv opts w = (Inl (UnknownCloudCover arg), w)
       \<and> MaxOpacity sv opts w = (Inl (UnknownCloudCover arg), w)
       \<and> MinOpacity sv opts w = (Inl (UnknownCloudCover arg), w)
       \<and> (\<forall>fetch. Opacity (sv\<lparr>serviceForecasts := fetch\<rparr>) opts w = Opacity sv opts w
              \<and> MaxOpacity (sv\<lparr>serviceForecasts := fetch\<rparr>) opts w = MaxOpacity sv opts w
              \<and> MinOpacity (sv\<lparr>serviceForecasts := fetch\<rparr>) opts w = MinOpacity sv opts w)
       \<and> (\<forall>as. MostlySunny sv (opts\<lparr>Args := as\<rparr>) w = MostlySunny sv opts w
              \<and> PartlyCloudy sv (opts\<lparr>Args := as\<rparr>) w = PartlyCloudy sv opts w
              \<and> MostlyCloudyCond sv (opts\<lparr>Args := as\<rparr>) w = MostlyCloudyCond sv opts w)
       \<and> Conditions sv ''mostly-sunny'' = Some (MostlySunny sv)
       \<and> Conditions sv ''partly-cloudy'' = Some (PartlyCloudy sv)
       \<and> Conditions sv ''partly-sunny'' = Some (PartlyCloudy sv)
       \<and> Conditions sv ''mostly-cloudy'' = Some (MostlyCloudyCond sv)"
proof -
  have 1: "opacity sv opts w = (Inl (UnknownCloudCover arg), w)"
    by (rule opacity_unknown_arg [OF assms])
  have 2: "opacity (sv\<lparr>serviceForecasts := fetch\<rparr>) opts w = (Inl (UnknownCloudCover arg), w)"
    for fetch
    using assms by (simp add: opacity_unknown_arg)
  show ?thesis
    by (simp add: Opacity_def MaxOpacity_def MinOpacity_def 1 2
        MostlySunny_def PartlyCloudy_def MostlyCloudyCond_def Conditions_def)
qed

text \<open>
  Against claim C6 as it is worded (every predicate invocation whose argument text
  classifies to unknown fails before any fetch): the argument "Blustery" classifies to
  unknown, and mostly-sunny called with it fetches the forecast once and answers true.
\<close>

theorem C6_unknown_argument_before_fetch_counterexample:
  "CloudOpacityFromShortForecast exampleService ''Blustery'' = UnknownOpaqueCloudCoverage
   \<and> MostlySunny exampleService \<lparr>Due = at 5, Args = [''Blustery'']\<rparr> 0 = (Inr True, 1)
   \<and> PartlyCloudy exampleService \<lparr>Due = at 5, Args = [''Blustery'']\<rparr> 0 = (Inr False, 1)
   \<and> MostlyCloudyCond exampleService \<lparr>Due = at 5, Args = [''Blustery'']\<rparr> 0
       = (Inr False, 1)"
  by code_simp

lemma example_mostly_sunny_5:
  "MostlySunny exampleService \<lparr>Due = at 5, Args = [''Sunny'']\<rparr> 0 = (Inr True, 1)"
  by code_simp

theorem C6_unknown_argument_before_fetch_witness:
  "CloudOpacityFromShortForecast exampleService ''Blustery'' = UnknownOpaqueCloudCoverage
   \<and> Opacity exampleService \<lparr>Due = at 5, Args = [''Blustery'']\<rparr> 0
       = (Inl (UnknownCloudCover ''Blustery''), 0)
   \<and> MaxOpacity exampleService \<lparr>Due = at 5, Args = [''Blustery'']\<rparr> 0
       = (Inl (UnknownCloudCover ''Blustery''), 0)
   \<and> MinOpacity exampleService \<lparr>Due = at 5, Args = [''Blustery'']\<rparr> 0
       = (Inl (UnknownCloudCover ''Blustery''), 0)
   \<and> MostlySunny exampleService \<lparr>Due = at 5, Args = [''Blustery'']\<rparr> 0
       = MostlySunny exampleService \<lparr>Due = at 5, Args = [''Sunny'']\<rparr> 0
   \<and> MostlySunny exampleService \<lparr>Due = at 5, Args = [''Sunny'']\<rparr> 0 = (Inr True, 1)"
proof -
  have a: "Args \<lparr>Due = at 5, Args = [''Blustery'']\<rparr> = [''Blustery'']" by simp
  have u: "CloudOpacityFromShortForecast exampleService ''Blustery''
             = UnknownOpaqueCloudCoverage"
    by (simp add: example_classifier example_classes)
  note C6 = C6_unknown_argument_before_fetch [OF a u, of 0]
  from C6 have "\<forall>as. MostlySunny exampleService
                    (\<lparr>Due = at 5, Args = [''Blustery'']\<rparr>\<lparr>Args := as\<rparr>) 0
                  = MostlySunny exampleService \<lparr>Due = at 5, Args = [''Blustery'']\<rparr> 0"
    by (elim conjE) blast
  then have "MostlySunny exampleService
                    (\<lparr>Due = at 5, Args = [''Blustery'']\<rparr>\<lparr>Args := [''Sunny'']\<rparr>) 0
                  = MostlySunny exampleService \<lparr>Due = at 5, Args = [''Blustery'']\<rparr> 0"
    by (rule spec)
  then have same: "MostlySunny exampleService \<lparr>Due = at 5, Args = [''Blustery'']\<rparr> 0
       = MostlySunny exampleService \<lparr>Due = at 5, Args = [''Sunny'']\<rparr> 0"
    by simp
  from C6 u same example_mostly_sunny_5
  show ?thesis by simp
qed

text \<open>
  Claim C7. The derived conditions are the base conditions at fixed arguments:
  mostly-sunny is max-cloud-cover with the argument "Mostly Sunny", mostly-cloudy is
  min-cloud-cover with "Mostly Cloudy", and partly-cloudy and partly-sunny are one and the
  same condition, cloud-cover with "Partly Sunny"; so the last two agree at every time, on
  every forecast and in every state.
\<close>

theorem C7_derived_conditions:
  "(\<exists>c. Conditions sv ''mostly-sunny'' = Some c
        \<and> (\<forall>opts w. c opts w = MaxOpacity sv (opts\<lparr>Args := [''Mostly Sunny'']\<rparr>) w))
   \<and> (\<exists>c. Conditions sv ''mostly-cloudy'' = Some c
        \<and> (\<forall>opts w. c opts w = MinOpacity sv (opts\<lparr>Args := [''Mostly Cloudy'']\<rparr>) w))
   \<and> (\<exists>c. Conditions sv ''partly-cloudy'' = Some c \<and> Conditions sv ''partly-sunny'' = Some c
        \<and> (\<forall>opts w. c opts w = Opacity sv (opts\<lparr>Args := [''Partly Sunny'']\<rparr>) w))"
  by (simp add: Conditions_def MostlySunny_def MostlyCloudyCond_def PartlyCloudy_def)

lemma example_min_45:
  "MinOpacity exampleService \<lparr>Due = at 45, Args = [''Mostly Cloudy'']\<rparr> 0 = (Inr True, 1)"
  by code_simp

theorem C7_derived_conditions_witness:
  "Conditions exampleService ''partly-cloudy'' = Conditions exampleService ''partly-sunny''
   \<and> (\<exists>c. Conditions exampleService ''mostly-cloudy'' = Some c
          \<and> c \<lparr>Due = at 45, Args = [''Sunny'']\<rparr> 0 = (Inr True, 1))"
proof -
  note C7 = C7_derived_conditions [of exampleService]
  from C7 have 1:
    "Conditions exampleService ''partly-cloudy'' = Conditions exampleService ''partly-sunny''"
    by (elim conjE exE) simp
  from C7 obtain c where c: "Conditions exampleService ''mostly-cloudy'' = Some c"
    and d: "\<forall>opts w. c opts w = MinOpacity exampleService (opts\<lparr>Args := [''Mostly Cloudy'']\<rparr>) w"
    by (elim conjE exE) blast
  from d have "c \<lparr>Due = at 45, Args = [''Sunny'']\<rparr> 0
      = MinOpacity exampleService (\<lparr>Due = at 45, Args = [''Sunny'']\<rparr>\<lparr>Args := [''Mostly Cloudy'']\<rparr>) 0"
    by blast
  then have "c \<lparr>Due = at 45, Args = [''Sunny'']\<rparr> 0 = (Inr True, 1)"
    by (simp add: example_min_45)
  with c 1 show ?thesis by blast
qed

text \<open>
  Claim C8. Once the argument has been accepted and the forecast fetched, the period lookup
  is made at the effective time: the current time carried into the configured time zone
  when the requested time is the zero instant, and the requested time itself, unchanged,
  otherwise. The result of \<open>opacity\<close> is that of the lookup at this time.
\<close>

theorem C8_due_substitution:
  assumes "Args opts = [arg]"
    and "CloudOpacityFromShortForecast sv arg \<noteq> UnknownOpaqueCloudCoverage"
    and "serviceForecasts sv w = (Inr fc, w')"
    and "due = (if instant (Due opts) = 0
                then \<lparr>instant = instant (Now sv w'), location = TimeLocation sv\<rparr>
                else Due opts)"
    and "PeriodFor sv fc due = (p, ok)"
  shows "substituteDue sv opts w' = due
       \<and> opacity sv opts w =
           (if \<not> ok then Inl (NoForecastAvailable due)
            else if CloudOpacityFromShortForecast sv (ShortForecast p)
                      = UnknownOpaqueCloudCoverage
            then Inl (UnknownCloudCoverInForecast (ShortForecast p))
            else Inr (CloudOpacityFromShortForecast sv (ShortForecast p),
                      CloudOpacityFromShortForecast sv arg), w')"
proof -
  have d: "substituteDue sv opts w' = due"
    using assms(4) by (simp add: substituteDue_def Equal_def zeroTime_def In_def)
  with assms(5) have "PeriodFor sv fc (substituteDue sv opts w') = (p, ok)" by simp
  from opacity_after_fetch [OF assms(1-3) this] d
  show ?thesis by simp
qed

lemma example_now:
  "\<lparr>instant = 45, location = Zone ''America/Chicago''\<rparr>
   = (if instant (Due \<lparr>Due = zeroTime, Args = [''Cloudy'']\<rparr>) = 0
      then \<lparr>instant = instant (Now exampleService 1),
            location = TimeLocation exampleService\<rparr>
      else Due \<lparr>Due = zeroTime, Args = [''Cloudy'']\<rparr>)"
  by (simp add: zeroTime_def exampleService_def standInService_def at_def)

lemma example_lookup_now:
  "PeriodFor exampleService exampleForecasts
     \<lparr>instant = 45, location = Zone ''America/Chicago''\<rparr>
   = (period 30 50 ''Mostly Cloudy'', True)"
  by code_simp

lemma example_given:
  "at 5 = (if instant (Due \<lparr>Due = at 5, Args = [''Cloudy'']\<rparr>) = 0
      then \<lparr>instant = instant (Now exampleService 1),
            location = TimeLocation exampleService\<rparr>
      else Due \<lparr>Due = at 5, Args = [''Cloudy'']\<rparr>)"
  by (simp add: at_def)

lemma example_lookup_5:
  "PeriodFor exampleService exampleForecasts (at 5) = (period 0 10 ''Sunny'', True)"
  by code_simp

theorem C8_due_substitution_witness:
  "opacity exampleService \<lparr>Due = zeroTime, Args = [''Cloudy'']\<rparr> 0
     = (Inr (MostlyCloudy, Cloudy), 1)
   \<and> substituteDue exampleService \<lparr>Due = zeroTime, Args = [''Cloudy'']\<rparr> 1
       = \<lparr>instant = 45, location = Zone ''America/Chicago''\<rparr>
   \<and> opacity exampleService \<lparr>Due = at 5, Args = [''Cloudy'']\<rparr> 0
       = (Inr (ClearSunny, Cloudy), 1)
   \<and> substituteDue exampleService \<lparr>Due = at 5, Args = [''Cloudy'']\<rparr> 1 = at 5"
proof -
  have a0: "Args \<lparr>Due = zeroTime, Args = [''Cloudy'']\<rparr> = [''Cloudy'']" by simp
  have a5: "Args \<lparr>Due = at 5, Args = [''Cloudy'']\<rparr> = [''Cloudy'']" by simp
  have B: "CloudOpacityFromShortForecast exampleService ''Cloudy''
             \<noteq> UnknownOpaqueCloudCoverage"
    by (simp add: example_classifier example_classes)
  from C8_due_substitution [OF a0 B example_fetch example_now example_lookup_now]
  have z: "opacity exampleService \<lparr>Due = zeroTime, Args = [''Cloudy'']\<rparr> 0
             = (Inr (MostlyCloudy, Cloudy), 1)
     \<and> substituteDue exampleService \<lparr>Due = zeroTime, Args = [''Cloudy'']\<rparr> 1
       = \<lparr>instant = 45, location = Zone ''America/Chicago''\<rparr>"
    by (simp add: example_classifier ShortForecast_period example_classes)
  from C8_due_substitution [OF a5 B example_fetch example_given example_lookup_5]
  have n: "opacity exampleService \<lparr>Due = at 5, Args = [''Cloudy'']\<rparr> 0
             = (Inr (ClearSunny, Cloudy), 1)
     \<and> substituteDue exampleService \<lparr>Due = at 5, Args = [''Cloudy'']\<rparr> 1 = at 5"
    by (simp add: example_classifier ShortForecast_period example_classes)
  from z n show ?thesis by simp
qed

end
